theory Spec2Isabelle
  imports Main "HOL-Library.AList"
begin

section \<open>Values, errors and the editor\<close>

text \<open>
  The diff feature of the plugin (\<^verbatim>\<open>command\<close>, \<^verbatim>\<open>read\<close>, \<^verbatim>\<open>parseResidue\<close>,
  \<^verbatim>\<open>jumpOld\<close>, \<^verbatim>\<open>jumpNew\<close>) and the worktree discovery (\<^verbatim>\<open>getWorktree\<close>,
  \<^verbatim>\<open>getWorktreeFromOpts\<close>) are embedded function by function. A JavaScript exception
  is a value \<open>Inl e\<close> of a sum type; a call on the editor or on a process is an entry of
  the trace that the function returns next to its result, in the order of the source.
\<close>

datatype error =
    Error string                  \<comment> \<open>\<^verbatim>\<open>throw new Error(msg)\<close>\<close>
  | EnsureError                   \<comment> \<open>\<^verbatim>\<open>unknownutil.ensureString\<close> on a value that is no string\<close>
  | AssertError                   \<comment> \<open>\<^verbatim>\<open>unknownutil.assertBoolean\<close> on a value that is no boolean\<close>
  | UnrecognizedScheme
  | MissingFragment
  | MalformedIdentifier
  | InvalidRevisionExpression

text \<open>
  The values a parameter of a buffer name carries: a string, a list of strings, or
  \<^verbatim>\<open>undefined\<close> (the source writes \<^verbatim>\<open>commitish: undefined\<close> into such an object).
\<close>

datatype jsval = JUndefined | JStr string | JArr "string list"

fun truthy :: "jsval \<Rightarrow> bool" where
  "truthy JUndefined = False"
| "truthy (JStr s) = (s \<noteq> [])"
| "truthy (JArr xs) = True"

fun ensureString :: "jsval \<Rightarrow> error + string" where
  "ensureString (JStr s) = Inr s"
| "ensureString v = Inl EnsureError"

text \<open>
  A JavaScript object with string keys is an association list in insertion order;
  \<^verbatim>\<open>{...o, k: v}\<close> is \<^const>\<open>AList.update\<close>: the key keeps its place when \<open>o\<close> has
  it and is appended otherwise.
\<close>

type_synonym jsobject = "(string \<times> jsval) list"
type_synonym opts = "(string \<times> string) list"
type_synonym bytes = "char list"

record bufname =
  scheme :: string
  expr :: string
  params :: "jsobject option"
  fragment :: "string option"

record jump =
  path :: string
  lnum :: int

datatype target = WORKTREE | INDEX | COMMIT string

record run_options =
  printCommand :: bool
  run_stdin :: string
  run_stdout :: string
  run_stderr :: string
  noOptionalLocks :: bool
  run_cwd :: string
  run_env :: "(string \<times> string) list"

record proc_result =
  status_success :: bool
  proc_output :: bytes
  proc_stderrOutput :: bytes

datatype optval = OStr string | OBool bool

datatype event =
    BufferOpen string string              \<comment> \<open>\<^verbatim>\<open>buffer.open(denops, bname, { cmdarg })\<close>\<close>
  | Run "string list" run_options         \<comment> \<open>\<^verbatim>\<open>run(args, options)\<close>\<close>
  | ProcClose
  | Cmd string                            \<comment> \<open>\<^verbatim>\<open>denops.cmd\<close>\<close>
  | Echo string                           \<comment> \<open>\<^verbatim>\<open>helper.echo\<close>\<close>
  | SetLocal string optval                \<comment> \<open>\<^verbatim>\<open>option.<name>.setLocal\<close>\<close>
  | MapKey string string bool bool        \<comment> \<open>\<^verbatim>\<open>mapping.map(lhs, rhs, { buffer, noremap })\<close>\<close>
  | EditData bytes string                 \<comment> \<open>\<^verbatim>\<open>buffer.editData(denops, data, { cmdarg })\<close>\<close>
  | Ensure int "event list"               \<comment> \<open>\<^verbatim>\<open>buffer.ensure(denops, bufnr, callback)\<close>\<close>
  | Concrete int                          \<comment> \<open>\<^verbatim>\<open>buffer.concrete(denops, bufnr)\<close>\<close>
  | EditCommand "string list"             \<comment> \<open>\<^verbatim>\<open>editCommand(denops, args)\<close>\<close>
  | Cursor int int                        \<comment> \<open>\<^verbatim>\<open>fn.cursor(denops, lnum, col)\<close>\<close>

text \<open>
  What the functions read from the editor when they start (\<^verbatim>\<open>batch.gather\<close>,
  \<^verbatim>\<open>vars.g.get\<close>, \<^verbatim>\<open>vars.v.get\<close>). The results of the editor's built-in functions
  have the types the source asserts of them (\<^verbatim>\<open>assertString\<close>, \<^verbatim>\<open>assertNumber\<close>,
  \<^verbatim>\<open>assertArray\<close>, \<^verbatim>\<open>ensureLike\<close>, \<^verbatim>\<open>assertObject\<close>), so these assertions pass.
  The global variable is the user's and may hold any value: \<^verbatim>\<open>assertBoolean\<close> throws
  on one that is no boolean.
\<close>

datatype vimval = VBool bool | VNumber int | VString string

fun assertBoolean :: "vimval \<Rightarrow> error + bool" where
  "assertBoolean (VBool b) = Inr b"
| "assertBoolean v = Inl AssertError"

record editor =
  getcwd :: string                        \<comment> \<open>\<^verbatim>\<open>fn.getcwd()\<close>\<close>
  cur_bufname :: string                   \<comment> \<open>\<^verbatim>\<open>fn.bufname("%")\<close>\<close>
  cur_dirname :: string                   \<comment> \<open>\<^verbatim>\<open>fn.expand("%:h")\<close>\<close>
  cur_bufnr :: int                        \<comment> \<open>\<^verbatim>\<open>fn.bufnr("%")\<close>\<close>
  v_cmdarg :: string                      \<comment> \<open>\<^verbatim>\<open>v:cmdarg\<close>\<close>
  cur_line :: int                         \<comment> \<open>\<^verbatim>\<open>fn.line(".")\<close>\<close>
  cur_content :: "string list"            \<comment> \<open>\<^verbatim>\<open>fn.getline(1, "$")\<close>\<close>
  gin_diff_disable_default_mappings :: vimval
                                          \<comment> \<open>\<^verbatim>\<open>vars.g.get(denops, "gin_diff_disable_default_mappings", false)\<close>\<close>
  environ :: "(string \<times> string) list"    \<comment> \<open>\<^verbatim>\<open>fn.environ()\<close>\<close>
  verbose :: int                          \<comment> \<open>\<^verbatim>\<open>option.verbose\<close>\<close>

text \<open>
  The functions the two source files import and that are defined elsewhere
  (\<^verbatim>\<open>deps.ts\<close>, \<^verbatim>\<open>util/args.ts\<close>, \<^verbatim>\<open>util/cmd.ts\<close>, \<^verbatim>\<open>util/text.ts\<close>,
  \<^verbatim>\<open>git/process.ts\<close>, \<^verbatim>\<open>git/finder.ts\<close>, \<^verbatim>\<open>global.ts\<close>, \<^verbatim>\<open>diff/jump.ts\<close>,
  \<^verbatim>\<open>diff/commitish.ts\<close>, \<^verbatim>\<open>edit/command.ts\<close>) are parameters of the model: every
  theorem about the source's functions holds for all of them.
\<close>

record deps =
  normCmdArgs :: "string list \<Rightarrow> error + string list"
  args_parse :: "string list \<Rightarrow> error + opts \<times> jsobject \<times> string list"
  validateOpts :: "opts \<Rightarrow> string list \<Rightarrow> error option"
  validateFlags :: "jsobject \<Rightarrow> string list \<Rightarrow> error option"
  builtinOpts :: "string list"
  formatOpts :: "opts \<Rightarrow> string list \<Rightarrow> string list"
  formatFlags :: "jsobject \<Rightarrow> string list"
  path_relative :: "string \<Rightarrow> string \<Rightarrow> string"
  bufname_format :: "bufname \<Rightarrow> error + string"
  bufname_parse :: "string \<Rightarrow> error + bufname"
  GIN_BUFFER_PROTOCOLS :: "string list"
  fnamemodify :: "string \<Rightarrow> string \<Rightarrow> error + jsval"
  fs_exists :: "string \<Rightarrow> bool"
  finder_find :: "string \<Rightarrow> error + string"
  cmd_expand :: "string \<Rightarrow> error + string"
  decodeUtf8 :: "bytes \<Rightarrow> string"
  run :: "string list \<Rightarrow> run_options \<Rightarrow> proc_result"
  findJumpOld :: "int \<Rightarrow> string list \<Rightarrow> error + jump option"
  findJumpNew :: "int \<Rightarrow> string list \<Rightarrow> error + jump option"
  parseCommitish :: "string \<Rightarrow> bool \<Rightarrow> error + target \<times> target"
  editCommand :: "string list \<Rightarrow> error option"

section \<open>Worktree discovery (\<^verbatim>\<open>util/worktree.ts\<close>)\<close>

text \<open>
  The \<^verbatim>\<open>try\<close> block of \<^verbatim>\<open>getWorktree\<close>: \<open>Some w\<close> when it returns \<open>w\<close>, \<open>None\<close>
  when it falls through, be it because the scheme is not registered or because
  \<^verbatim>\<open>bufname.parse\<close>, \<^verbatim>\<open>fn.fnamemodify\<close> or \<^verbatim>\<open>ensureString\<close> threw (the \<^verbatim>\<open>catch\<close>
  ignores the error).
\<close>

definition worktree_of_bufname :: "deps \<Rightarrow> string \<Rightarrow> string option" where
  "worktree_of_bufname D bname =
     (case bufname_parse D bname of
        Inl e \<Rightarrow> None
      | Inr b \<Rightarrow>
          if scheme b \<in> set (GIN_BUFFER_PROTOCOLS D) then
            (case fnamemodify D (expr b) '':p'' of
               Inl e \<Rightarrow> None
             | Inr v \<Rightarrow> (case ensureString v of Inl e \<Rightarrow> None | Inr w \<Rightarrow> Some w))
          else None)"

definition getWorktree :: "deps \<Rightarrow> editor \<Rightarrow> error + string" where
  "getWorktree D ed =
     (case (if cur_bufname ed \<noteq> [] then worktree_of_bufname D (cur_bufname ed) else None) of
        Some w \<Rightarrow> Inr w
      | None \<Rightarrow>
          if cur_dirname ed \<noteq> [] \<and> fs_exists D (cur_dirname ed)
          then finder_find D (cur_dirname ed)
          else finder_find D (getcwd ed))"

definition getWorktreeFromOpts :: "deps \<Rightarrow> editor \<Rightarrow> opts \<Rightarrow> error + string" where
  "getWorktreeFromOpts D ed os =
     (case map_of os ''worktree'' of
        None \<Rightarrow> getWorktree D ed
      | Some w \<Rightarrow>
          if w \<noteq> [] then
            (case cmd_expand D w of Inl e \<Rightarrow> Inl e | Inr p \<Rightarrow> finder_find D p)
          else getWorktree D ed)"

section \<open>The diff command (\<^verbatim>\<open>command\<close>, \<^verbatim>\<open>parseResidue\<close>)\<close>

fun join :: "string \<Rightarrow> string list \<Rightarrow> string" where
  "join sep [] = []"
| "join sep [x] = x"
| "join sep (x # y # ys) = x @ sep @ join sep (y # ys)"

fun parseResidue :: "string list \<Rightarrow> error + (string option \<times> string)" where
  "parseResidue [p] = Inr (None, p)"
| "parseResidue [c, p] = Inr (Some c, p)"
| "parseResidue residue = Inl (Error ''Invalid number of arguments'')"

definition diff_flags :: "string list" where
  "diff_flags =
     [''R'', ''b'', ''w'', ''I'', ''cached'', ''renames'', ''diff-filter'',
      ''ignore-cr-at-eol'', ''ignore-space-at-eol'', ''ignore-space-change'',
      ''ignore-all-space'', ''ignore-blank-lines'', ''ignore-matching-lines'',
      ''ignore-submodules'']"

definition command :: "deps \<Rightarrow> editor \<Rightarrow> string list \<Rightarrow> (error + unit) \<times> event list" where
  "command D ed args =
     (case normCmdArgs D args of Inl e \<Rightarrow> (Inl e, []) | Inr normalized \<Rightarrow>
      case args_parse D normalized of Inl e \<Rightarrow> (Inl e, []) | Inr (os, flags, residue) \<Rightarrow>
      case validateOpts D os (''worktree'' # builtinOpts D) of Some e \<Rightarrow> (Inl e, []) | None \<Rightarrow>
      case validateFlags D flags diff_flags of Some e \<Rightarrow> (Inl e, []) | None \<Rightarrow>
      case parseResidue residue of Inl e \<Rightarrow> (Inl e, []) | Inr (commitish, abspath) \<Rightarrow>
      case getWorktreeFromOpts D ed os of Inl e \<Rightarrow> (Inl e, []) | Inr worktree \<Rightarrow>
        let relpath = path_relative D worktree abspath;
            cmdarg = join '' '' (formatOpts D os (builtinOpts D))
        in case bufname_format D
                  \<lparr>scheme = ''gindiff'', expr = worktree,
                   params = Some (AList.update ''commitish''
                              (case commitish of None \<Rightarrow> JUndefined | Some c \<Rightarrow> JStr c) flags),
                   fragment = Some relpath\<rparr> of
             Inl e \<Rightarrow> (Inl e, [])
           | Inr bname \<Rightarrow> (Inr (), [BufferOpen bname cmdarg]))"

text \<open>
  The record \<^verbatim>\<open>command\<close> hands to \<^verbatim>\<open>bufname.format\<close>, written once more for the
  statements about it: scheme \<^verbatim>\<open>"gindiff"\<close>, the worktree as \<^verbatim>\<open>expr\<close>, the flags with
  \<^verbatim>\<open>commitish\<close> set to the first positional argument (\<^verbatim>\<open>undefined\<close> when there is
  one argument only), and the path relative to the worktree as fragment.
\<close>

definition diff_bufname :: "deps \<Rightarrow> string \<Rightarrow> jsobject \<Rightarrow> string option \<Rightarrow> string \<Rightarrow> bufname" where
  "diff_bufname D worktree flags commitish abspath =
     \<lparr>scheme = ''gindiff'', expr = worktree,
      params = Some (AList.update ''commitish''
                 (case commitish of None \<Rightarrow> JUndefined | Some c \<Rightarrow> JStr c) flags),
      fragment = Some (path_relative D worktree abspath)\<rparr>"

section \<open>Rendering the buffer (\<^verbatim>\<open>read\<close>)\<close>

text \<open>\<^verbatim>\<open>params ?? {}\<close> and the property read \<^verbatim>\<open>params?.k\<close>.\<close>

definition params_or_empty :: "bufname \<Rightarrow> jsobject" where
  "params_or_empty b = (case params b of None \<Rightarrow> [] | Some ps \<Rightarrow> ps)"

definition param :: "bufname \<Rightarrow> string \<Rightarrow> jsval" where
  "param b k = (case map_of (params_or_empty b) k of None \<Rightarrow> JUndefined | Some v \<Rightarrow> v)"

definition fragment_error :: error where
  "fragment_error = Error (''A buffer '' @ [CHR 0x27] @ ''gindiff://'' @ [CHR 0x27] @ '' requires a fragment part'')"

definition jump_old_rhs :: string where
  "jump_old_rhs = ''<Cmd>call denops#request('' @ [CHR 0x27] @ ''gin'' @ [CHR 0x27] @ '', ''
     @ [CHR 0x27] @ ''diff:jump:old'' @ [CHR 0x27] @ '', [])<CR>''"

definition jump_new_rhs :: string where
  "jump_new_rhs = ''<Cmd>call denops#request('' @ [CHR 0x27] @ ''gin'' @ [CHR 0x27] @ '', ''
     @ [CHR 0x27] @ ''diff:jump:new'' @ [CHR 0x27] @ '', [])<CR>''"

text \<open>The callback handed to \<^verbatim>\<open>buffer.ensure\<close>: options, mappings, then the content.\<close>

definition populate :: "bool \<Rightarrow> bytes \<Rightarrow> string \<Rightarrow> event list" where
  "populate disableDefaultMappings data cmdarg =
     [SetLocal ''filetype'' (OStr ''diff''),
      SetLocal ''bufhidden'' (OStr ''unload''),
      SetLocal ''buftype'' (OStr ''nofile''),
      SetLocal ''swapfile'' (OBool False),
      SetLocal ''modifiable'' (OBool False),
      MapKey ''<Plug>(gin-diffjump-old)'' jump_old_rhs True True,
      MapKey ''<Plug>(gin-diffjump-new)'' jump_new_rhs True True]
     @ (if \<not> disableDefaultMappings
        then [MapKey ''g<CR>'' ''<Plug>(gin-diffjump-old)zv'' True False,
              MapKey ''<CR>'' ''<Plug>(gin-diffjump-new)zv'' True False]
        else [])
     @ [EditData data cmdarg]"

text \<open>The argument list of the diff process; \<^verbatim>\<open>ensureString\<close> may throw while it is built.\<close>

definition read_args :: "deps \<Rightarrow> bufname \<Rightarrow> string \<Rightarrow> error + string list" where
  "read_args D b frag =
     (let flags = AList.update ''commitish'' JUndefined (params_or_empty b) in
      case (if truthy (param b ''commitish'')
            then map_sum id (\<lambda>c. [c]) (ensureString (param b ''commitish''))
            else Inr []) of
        Inl e \<Rightarrow> Inl e
      | Inr commitish \<Rightarrow>
          Inr ([''diff'', ''--no-color''] @ formatFlags D flags @ commitish @ [frag]))"

definition read_options :: "editor \<Rightarrow> bufname \<Rightarrow> run_options" where
  "read_options ed b =
     \<lparr>printCommand = (verbose ed \<noteq> 0), run_stdin = ''null'',
      run_stdout = ''piped'', run_stderr = ''piped'',
      noOptionalLocks = True, run_cwd = expr b, run_env = environ ed\<rparr>"

definition read :: "deps \<Rightarrow> editor \<Rightarrow> (error + unit) \<times> event list" where
  "read D ed =
     (case assertBoolean (gin_diff_disable_default_mappings ed) of
        Inl e \<Rightarrow> (Inl e, [])
      | Inr disableDefaultMappings \<Rightarrow>
      case bufname_parse D (cur_bufname ed) of Inl e \<Rightarrow> (Inl e, []) | Inr b \<Rightarrow>
      case fragment b of
        None \<Rightarrow> (Inl fragment_error, [])
      | Some frag \<Rightarrow>
          if frag = [] then (Inl fragment_error, [])
          else
            case read_args D b frag of
              Inl e \<Rightarrow> (Inl e, [])
            | Inr args \<Rightarrow>
                let proc = run D args (read_options ed b)
                in if \<not> status_success proc
                   then (Inr (),
                         [Run args (read_options ed b), ProcClose,
                          Cmd ''echohl Error'', Echo (decodeUtf8 D (proc_stderrOutput proc)),
                          Cmd ''echohl None''])
                   else (Inr (),
                         [Run args (read_options ed b), ProcClose,
                          Ensure (cur_bufnr ed)
                            (populate disableDefaultMappings (proc_output proc) (v_cmdarg ed)),
                          Concrete (cur_bufnr ed)]))"

text \<open>
  The calls that change a buffer, its options, its mappings or the cursor. An Ex command
  counts as one unless it is \<^verbatim>\<open>echohl\<close>, which sets the highlighting of the messages.
\<close>

fun changes_buffer :: "event \<Rightarrow> bool" where
  "changes_buffer (Run args options) = False"
| "changes_buffer ProcClose = False"
| "changes_buffer (Echo msg) = False"
| "changes_buffer (Cmd c) = (take 7 c \<noteq> ''echohl '')"
| "changes_buffer ev = True"

section \<open>Jumping from a diff line (\<^verbatim>\<open>jumpOld\<close>, \<^verbatim>\<open>jumpNew\<close>)\<close>

text \<open>\<^verbatim>\<open>s.replace(/^a\//, "")\<close>: the prefix is removed when it is there.\<close>

definition remove_prefix :: "string \<Rightarrow> string \<Rightarrow> string" where
  "remove_prefix pre s = (if take (length pre) s = pre then drop (length pre) s else s)"

text \<open>\<^verbatim>\<open>params?.commitish ?? ""\<close>\<close>

definition commitish_or_empty :: "bufname \<Rightarrow> jsval" where
  "commitish_or_empty b =
     (case param b ''commitish'' of JUndefined \<Rightarrow> JStr [] | v \<Rightarrow> v)"

text \<open>\<^verbatim>\<open>"cached" in (params ?? {})\<close>\<close>

definition cached_in :: "bufname \<Rightarrow> bool" where
  "cached_in b = (''cached'' \<in> set (map fst (params_or_empty b)))"

text \<open>\<^verbatim>\<open>await editCommand(denops, args); await fn.cursor(denops, jump.lnum, 1)\<close>\<close>

definition edit_then_cursor :: "deps \<Rightarrow> string list \<Rightarrow> jump \<Rightarrow> (error + unit) \<times> event list" where
  "edit_then_cursor D args j =
     (case editCommand D args of
        Some e \<Rightarrow> (Inl e, [EditCommand args])
      | None \<Rightarrow> (Inr (), [EditCommand args, Cursor (lnum j) 1]))"

definition jumpOld :: "deps \<Rightarrow> editor \<Rightarrow> (error + unit) \<times> event list" where
  "jumpOld D ed =
     (case bufname_parse D (cur_bufname ed) of Inl e \<Rightarrow> (Inl e, []) | Inr b \<Rightarrow>
      case findJumpOld D (cur_line ed - 1) (cur_content ed) of
        Inl e \<Rightarrow> (Inl e, [])
      | Inr None \<Rightarrow> (Inr (), [])
      | Inr (Some j) \<Rightarrow>
          let p = remove_prefix ''a/'' (path j);
              cached = cached_in b
          in case ensureString (commitish_or_empty b) of Inl e \<Rightarrow> (Inl e, []) | Inr commitish \<Rightarrow>
             case parseCommitish D commitish cached of Inl e \<Rightarrow> (Inl e, []) | Inr (tgt, other) \<Rightarrow>
               if tgt = INDEX then
                 edit_then_cursor D [''++worktree='' @ expr b, ''--cached'', p] j
               else if tgt = WORKTREE then
                 edit_then_cursor D [''++worktree='' @ expr b, p] j
               else
                 edit_then_cursor D
                   [''++worktree='' @ expr b, if commitish \<noteq> [] then commitish else ''HEAD'', p] j)"

definition jumpNew :: "deps \<Rightarrow> editor \<Rightarrow> (error + unit) \<times> event list" where
  "jumpNew D ed =
     (case bufname_parse D (cur_bufname ed) of Inl e \<Rightarrow> (Inl e, []) | Inr b \<Rightarrow>
      case findJumpNew D (cur_line ed - 1) (cur_content ed) of
        Inl e \<Rightarrow> (Inl e, [])
      | Inr None \<Rightarrow> (Inr (), [])
      | Inr (Some j) \<Rightarrow>
          let p = remove_prefix ''b/'' (path j);
              cached = cached_in b
          in case ensureString (commitish_or_empty b) of Inl e \<Rightarrow> (Inl e, []) | Inr commitish \<Rightarrow>
             case parseCommitish D commitish cached of Inl e \<Rightarrow> (Inl e, []) | Inr (other, tgt) \<Rightarrow>
               if tgt = INDEX then
                 edit_then_cursor D [''++worktree='' @ expr b, ''--cached'', p] j
               else if tgt = WORKTREE then
                 edit_then_cursor D [''++worktree='' @ expr b, p] j
               else
                 edit_then_cursor D
                   [''++worktree='' @ expr b, if commitish \<noteq> [] then commitish else ''HEAD'', p] j)"

text \<open>
  The open request of a target, in one place: a Worktree target opens the file at the
  repository root, an Index target the staged content, a Commit target the content as of
  the stored revision expression, \<^verbatim>\<open>HEAD\<close> when that is empty. The reference inside
  the Commit target is not used, as in the source, which passes \<^verbatim>\<open>commitish || "HEAD"\<close>.
\<close>

fun open_request :: "string \<Rightarrow> string \<Rightarrow> string \<Rightarrow> target \<Rightarrow> string list" where
  "open_request root commitish p WORKTREE = [''++worktree='' @ root, p]"
| "open_request root commitish p INDEX = [''++worktree='' @ root, ''--cached'', p]"
| "open_request root commitish p (COMMIT r) =
     [''++worktree='' @ root, if commitish = [] then ''HEAD'' else commitish, p]"

section \<open>The target resolver\<close>

text \<open>
  Modelled from the spec: \<^verbatim>\<open>parseCommitish\<close>, \<^verbatim>\<open>INDEX\<close> and \<^verbatim>\<open>WORKTREE\<close> of
  \<^verbatim>\<open>diff/commitish.ts\<close>, which is not among the sources. The spec's Target Resolver:
  an empty expression gives \<open>(Commit HEAD, Index)\<close> when staged and \<open>(Index, Worktree)\<close>
  otherwise; one revision \<open>R\<close> gives \<open>(Commit R, Index)\<close> or \<open>(Commit R, Worktree)\<close>;
  a range of two revisions gives \<open>(Commit R1, Commit R2)\<close>; anything else fails with
  \<open>InvalidRevisionExpression\<close>. The range marker is \<^verbatim>\<open>..\<close>, the one form the spec
  confirms. A revision is a non-empty token that holds no range marker and neither starts
  nor ends with a dot, so that \<^verbatim>\<open>a...b\<close> is no range of two revisions.
\<close>

fun split_range :: "string \<Rightarrow> (string \<times> string) option" where
  "split_range (c # d # cs) =
     (if c = CHR ''.'' \<and> d = CHR ''.'' then Some ([], cs)
      else map_option (\<lambda>(a, b). (c # a, b)) (split_range (d # cs)))"
| "split_range cs = None"

definition is_revision :: "string \<Rightarrow> bool" where
  "is_revision r \<longleftrightarrow>
     r \<noteq> [] \<and> split_range r = None \<and> hd r \<noteq> CHR ''.'' \<and> last r \<noteq> CHR ''.''"

definition resolve :: "string \<Rightarrow> bool \<Rightarrow> error + target \<times> target" where
  "resolve e staged =
     (if e = [] then
        (if staged then Inr (COMMIT ''HEAD'', INDEX) else Inr (INDEX, WORKTREE))
      else
        (case split_range e of
           None \<Rightarrow>
             if is_revision e
             then (if staged then Inr (COMMIT e, INDEX) else Inr (COMMIT e, WORKTREE))
             else Inl InvalidRevisionExpression
         | Some (r1, r2) \<Rightarrow>
             if is_revision r1 \<and> is_revision r2
             then Inr (COMMIT r1, COMMIT r2)
             else Inl InvalidRevisionExpression))"

section \<open>The diff line locator\<close>

text \<open>
  Modelled from the spec: \<^verbatim>\<open>findJumpOld\<close> and \<^verbatim>\<open>findJumpNew\<close> of \<^verbatim>\<open>diff/jump.ts\<close>,
  which is not among the sources. The spec's Diff Line Locator is one forward scan that
  keeps the last file header pair and two counters, set at each hunk header; a context
  line maps on both sides, a removal on the old side, an addition on the new side, and
  every other line maps on neither. The text is the unified diff that \<^verbatim>\<open>git diff\<close>
  prints: \<^verbatim>\<open>--- a/<path>\<close>, \<^verbatim>\<open>+++ b/<path>\<close>, \<^verbatim>\<open>@@ -s,c +s,c @@\<close> (a count left
  out is 1), and content lines that start with a space, \<^verbatim>\<open>-\<close> or \<^verbatim>\<open>+\<close>.
\<close>

datatype side = Old | New

datatype diff_line =
    OldFile string
  | NewFile string
  | Hunk nat nat nat nat
  | ContextLine
  | RemovalLine
  | AdditionLine
  | OtherLine

definition after_prefix :: "string \<Rightarrow> string \<Rightarrow> string option" where
  "after_prefix pre s = (if take (length pre) s = pre then Some (drop (length pre) s) else None)"

definition is_digit :: "char \<Rightarrow> bool" where
  "is_digit c \<longleftrightarrow> (48::nat) \<le> of_char c \<and> of_char c \<le> (57::nat)"

fun digits_value :: "nat \<Rightarrow> string \<Rightarrow> nat \<times> string" where
  "digits_value acc [] = (acc, [])"
| "digits_value acc (c # cs) =
     (if is_digit c then digits_value (acc * 10 + (of_char c - 48)) cs else (acc, c # cs))"

definition take_number :: "string \<Rightarrow> (nat \<times> string) option" where
  "take_number s =
     (case s of [] \<Rightarrow> None | c # cs \<Rightarrow> if is_digit c then Some (digits_value 0 s) else None)"

definition take_range :: "string \<Rightarrow> ((nat \<times> nat) \<times> string) option" where
  "take_range s =
     (case take_number s of
        None \<Rightarrow> None
      | Some (start, r) \<Rightarrow>
          (case after_prefix '','' r of
             None \<Rightarrow> Some ((start, 1), r)
           | Some r' \<Rightarrow>
               (case take_number r' of
                  None \<Rightarrow> None
                | Some (count, r'') \<Rightarrow> Some ((start, count), r''))))"

definition parse_hunk_header :: "string \<Rightarrow> (nat \<times> nat \<times> nat \<times> nat) option" where
  "parse_hunk_header s =
     (case after_prefix ''@@ -'' s of None \<Rightarrow> None | Some r0 \<Rightarrow>
      case take_range r0 of None \<Rightarrow> None | Some ((oldStart, oldCount), r1) \<Rightarrow>
      case after_prefix '' +'' r1 of None \<Rightarrow> None | Some r2 \<Rightarrow>
      case take_range r2 of None \<Rightarrow> None | Some ((newStart, newCount), r3) \<Rightarrow>
      case after_prefix '' @@'' r3 of None \<Rightarrow> None | Some r4 \<Rightarrow>
        Some (oldStart, oldCount, newStart, newCount))"

definition classify :: "string \<Rightarrow> diff_line" where
  "classify s =
     (case after_prefix ''--- '' s of Some p \<Rightarrow> OldFile p | None \<Rightarrow>
      case after_prefix ''+++ '' s of Some p \<Rightarrow> NewFile p | None \<Rightarrow>
      case after_prefix ''@@ '' s of
        Some r \<Rightarrow> (case parse_hunk_header s of
                     Some (a, b, c, d) \<Rightarrow> Hunk a b c d
                   | None \<Rightarrow> OtherLine)
      | None \<Rightarrow>
          (case s of
             [] \<Rightarrow> OtherLine
           | c # cs \<Rightarrow>
               if c = CHR '' '' then ContextLine
               else if c = CHR ''-'' then RemovalLine
               else if c = CHR ''+'' then AdditionLine
               else OtherLine))"

record scan_state =
  old_path :: "string option"
  new_path :: "string option"
  in_hunk :: bool
  oldLine :: nat
  newLine :: nat

definition scan_init :: scan_state where
  "scan_init = \<lparr>old_path = None, new_path = None, in_hunk = False, oldLine = 0, newLine = 0\<rparr>"

text \<open>What a line does to the accumulator once it has been passed.\<close>

definition scan_step :: "scan_state \<Rightarrow> string \<Rightarrow> scan_state" where
  "scan_step st s =
     (case classify s of
        OldFile p \<Rightarrow> st\<lparr>old_path := Some p\<rparr>
      | NewFile p \<Rightarrow> st\<lparr>new_path := Some p\<rparr>
      | Hunk a b c d \<Rightarrow> st\<lparr>in_hunk := True, oldLine := a, newLine := c\<rparr>
      | ContextLine \<Rightarrow>
          if in_hunk st then st\<lparr>oldLine := oldLine st + 1, newLine := newLine st + 1\<rparr> else st
      | RemovalLine \<Rightarrow> if in_hunk st then st\<lparr>oldLine := oldLine st + 1\<rparr> else st
      | AdditionLine \<Rightarrow> if in_hunk st then st\<lparr>newLine := newLine st + 1\<rparr> else st
      | OtherLine \<Rightarrow> st)"

text \<open>The mapping of the cursor line, from the counters before they advance.\<close>

definition old_mapping :: "scan_state \<Rightarrow> jump option" where
  "old_mapping st =
     (case old_path st of
        None \<Rightarrow> None
      | Some p \<Rightarrow> if in_hunk st then Some \<lparr>path = p, lnum = int (oldLine st)\<rparr> else None)"

definition new_mapping :: "scan_state \<Rightarrow> jump option" where
  "new_mapping st =
     (case new_path st of
        None \<Rightarrow> None
      | Some p \<Rightarrow> if in_hunk st then Some \<lparr>path = p, lnum = int (newLine st)\<rparr> else None)"

definition line_mapping :: "side \<Rightarrow> scan_state \<Rightarrow> string \<Rightarrow> jump option" where
  "line_mapping sd st s =
     (case classify s of
        ContextLine \<Rightarrow> (case sd of Old \<Rightarrow> old_mapping st | New \<Rightarrow> new_mapping st)
      | RemovalLine \<Rightarrow> (case sd of Old \<Rightarrow> old_mapping st | New \<Rightarrow> None)
      | AdditionLine \<Rightarrow> (case sd of Old \<Rightarrow> None | New \<Rightarrow> new_mapping st)
      | _ \<Rightarrow> None)"

fun scan :: "side \<Rightarrow> scan_state \<Rightarrow> string list \<Rightarrow> nat \<Rightarrow> jump option" where
  "scan sd st [] n = None"
| "scan sd st (s # ss) 0 = line_mapping sd st s"
| "scan sd st (s # ss) (Suc n) = scan sd (scan_step st s) ss n"

definition find_jump :: "side \<Rightarrow> int \<Rightarrow> string list \<Rightarrow> jump option" where
  "find_jump sd index content = (if index < 0 then None else scan sd scan_init content (nat index))"

text \<open>
  The spec's \<open>locate\<close> returns the path without its fixed prefix; in the source the
  prefix is removed by \<^verbatim>\<open>jumpOld\<close> (\<^verbatim>\<open>/^a\//\<close>) and \<^verbatim>\<open>jumpNew\<close> (\<^verbatim>\<open>/^b\//\<close>) from
  what \<^verbatim>\<open>findJumpOld\<close> and \<^verbatim>\<open>findJumpNew\<close> return.
\<close>

definition locate :: "string list \<Rightarrow> int \<Rightarrow> side \<Rightarrow> jump option" where
  "locate text cursorLine sd =
     (case sd of
        Old \<Rightarrow> map_option (\<lambda>j. j\<lparr>path := remove_prefix ''a/'' (path j)\<rparr>)
                 (find_jump Old cursorLine text)
      | New \<Rightarrow> map_option (\<lambda>j. j\<lparr>path := remove_prefix ''b/'' (path j)\<rparr>)
                 (find_jump New cursorLine text))"

definition minimal_diff :: "string list" where
  "minimal_diff =
     [''--- a/foo.txt'', ''+++ b/foo.txt'', ''@@ -1,2 +1,3 @@'', '' a'', ''+b'', '' c'']"

section \<open>The buffer name codec\<close>

text \<open>
  Modelled from the spec: the Buffer-Name Codec, \<open>serialize\<close> and \<open>parse\<close> for the
  diff view. In the sources its place is taken by \<^verbatim>\<open>bufname.format\<close> and
  \<^verbatim>\<open>bufname.parse\<close>, which are reached through \<^verbatim>\<open>deps.ts\<close> and are not among them. The
  identifier is \<^verbatim>\<open>scheme://root-path?key1=value1&key2&...#fragment-path\<close>, a parameter
  that is only present has no \<^verbatim>\<open>=value\<close>, the order of the parameters is kept, root,
  keys, values and fragment are percent-encoded where a character collides with a
  delimiter of the form (\<^verbatim>\<open>?\<close>, \<^verbatim>\<open>#\<close>, \<^verbatim>\<open>&\<close>, \<^verbatim>\<open>=\<close> and \<^verbatim>\<open>%\<close> itself) so that
  \<^verbatim>\<open>/\<close> stays as it is, and parsing rejects a scheme that is not the tag of the view
  (\<open>UnrecognizedScheme\<close>) and a missing or empty fragment (\<open>MissingFragment\<close>). The
  tag is the \<^verbatim>\<open>"gindiff"\<close> that \<^verbatim>\<open>command\<close> writes. The functions of the source take
  the name alone; what they do with the scheme is a parameter of the sections above.
\<close>

record descriptor =
  d_scheme :: string
  root :: string
  parameters :: "(string \<times> string option) list"
  d_fragment :: string

definition diff_scheme :: string where
  "diff_scheme = ''gindiff''"

definition reserved :: "char \<Rightarrow> bool" where
  "reserved c \<longleftrightarrow> c \<in> set ''%?#&=''"

definition hex_digit :: "nat \<Rightarrow> char" where
  "hex_digit n = (if n < 10 then char_of (48 + n) else char_of (55 + n))"

definition hex_value :: "char \<Rightarrow> nat option" where
  "hex_value c =
     (let n = of_char c :: nat in
      if 48 \<le> n \<and> n \<le> 57 then Some (n - 48)
      else if 65 \<le> n \<and> n \<le> 70 then Some (n - 55)
      else if 97 \<le> n \<and> n \<le> 102 then Some (n - 87)
      else None)"

definition encode_char :: "char \<Rightarrow> string" where
  "encode_char c =
     (if reserved c
      then [CHR ''%'', hex_digit (of_char c div 16), hex_digit (of_char c mod 16)]
      else [c])"

definition encode :: "string \<Rightarrow> string" where
  "encode s = concat (map encode_char s)"

fun decode :: "string \<Rightarrow> string option" where
  "decode [] = Some []"
| "decode (c # cs) =
     (if c = CHR ''%'' then
        (case cs of
           h # l # rest \<Rightarrow>
             (case (hex_value h, hex_value l) of
                (Some a, Some b) \<Rightarrow> map_option ((#) (char_of (a * 16 + b))) (decode rest)
              | _ \<Rightarrow> None)
         | _ \<Rightarrow> None)
      else map_option ((#) c) (decode cs))"

definition split_first :: "char \<Rightarrow> string \<Rightarrow> string \<times> string option" where
  "split_first c s =
     (takeWhile (\<lambda>x. x \<noteq> c) s,
      case dropWhile (\<lambda>x. x \<noteq> c) s of [] \<Rightarrow> None | x # r \<Rightarrow> Some r)"

fun split_all :: "char \<Rightarrow> string \<Rightarrow> string list" where
  "split_all c [] = [[]]"
| "split_all c (x # xs) =
     (if x = c then [] # split_all c xs
      else (case split_all c xs of [] \<Rightarrow> [[x]] | y # ys \<Rightarrow> (x # y) # ys))"

fun serialize_param :: "string \<times> string option \<Rightarrow> string" where
  "serialize_param (k, None) = encode k"
| "serialize_param (k, Some v) = encode k @ ''='' @ encode v"

definition parse_param :: "string \<Rightarrow> (string \<times> string option) option" where
  "parse_param s =
     (case split_first CHR ''='' s of
        (k, None) \<Rightarrow> map_option (\<lambda>k'. (k', None)) (decode k)
      | (k, Some v) \<Rightarrow>
          (case (decode k, decode v) of
             (Some k', Some v') \<Rightarrow> Some (k', Some v')
           | _ \<Rightarrow> None))"

definition serialize :: "descriptor \<Rightarrow> string" where
  "serialize d =
     d_scheme d @ ''://'' @ encode (root d)
     @ (if parameters d = [] then []
        else ''?'' @ join ''&'' (map serialize_param (parameters d)))
     @ ''#'' @ encode (d_fragment d)"

definition parse :: "string \<Rightarrow> error + descriptor" where
  "parse ident =
     (case after_prefix (diff_scheme @ ''://'') ident of
        None \<Rightarrow> Inl UnrecognizedScheme
      | Some body \<Rightarrow>
          (case split_first CHR ''#'' body of
             (front, None) \<Rightarrow> Inl MissingFragment
           | (front, Some frag) \<Rightarrow>
               if frag = [] then Inl MissingFragment
               else
                 (case split_first CHR ''?'' front of (r, query) \<Rightarrow>
                  case (decode r, decode frag,
                        (case query of
                           None \<Rightarrow> Some []
                         | Some q \<Rightarrow> those (map parse_param (split_all CHR ''&'' q)))) of
                    (Some r', Some frag', Some ps) \<Rightarrow>
                      Inr \<lparr>d_scheme = diff_scheme, root = r', parameters = ps,
                           d_fragment = frag'\<rparr>
                  | _ \<Rightarrow> Inl MalformedIdentifier)))"

text \<open>
  The legal descriptors of the spec: the scheme is the tag, the root is an absolute path,
  the keys are unique and the fragment is not empty.
\<close>

definition valid :: "descriptor \<Rightarrow> bool" where
  "valid d \<longleftrightarrow>
     d_scheme d = diff_scheme
     \<and> take 1 (root d) = ''/''
     \<and> distinct (map fst (parameters d))
     \<and> d_fragment d \<noteq> []"

definition sample_descriptor :: descriptor where
  "sample_descriptor =
     \<lparr>d_scheme = ''gindiff'', root = ''/home/me/my repo#1'',
      parameters = [(''cached'', None), (''commitish'', Some ''v1..v2''), (''I'', Some ''a=b&c'')],
      d_fragment = ''src/100%.txt''\<rparr>"

definition delimiter :: "char \<Rightarrow> bool" where
  "delimiter c \<longleftrightarrow> c = CHR ''?'' \<or> c = CHR ''#'' \<or> c = CHR ''&'' \<or> c = CHR ''=''"





section \<open>A sample configuration\<close>

text \<open>
  One concrete choice of the imported functions and of the editor's answers, on which the
  theorems below are run: a table of buffer names with what \<^verbatim>\<open>bufname.parse\<close> returns
  for each, a repository at \<^verbatim>\<open>/repo\<close>, a diff process that succeeds there and fails
  elsewhere, the resolver and the locator of the two sections above, and the minimal diff
  as the buffer's text. The table holds a name whose record has no fragment, the case the
  check of \<^verbatim>\<open>read\<close> is written for; \<open>codec_deps\<close> has the codec's \<open>parse\<close> as parser
  instead.
\<close>

definition sample_names :: "(string \<times> bufname) list" where
  "sample_names =
     [(''gindiff:///repo#foo.txt'',
         \<lparr>scheme = ''gindiff'', expr = ''/repo'', params = None, fragment = Some ''foo.txt''\<rparr>),
      (''gindiff:///repo?cached#foo.txt'',
         \<lparr>scheme = ''gindiff'', expr = ''/repo'',
          params = Some [(''cached'', JStr [])], fragment = Some ''foo.txt''\<rparr>),
      (''gindiff:///repo?commitish=v1..v2#foo.txt'',
         \<lparr>scheme = ''gindiff'', expr = ''/repo'',
          params = Some [(''commitish'', JStr ''v1..v2'')], fragment = Some ''foo.txt''\<rparr>),
      (''gindiff:///repo'',
         \<lparr>scheme = ''gindiff'', expr = ''/repo'', params = None, fragment = None\<rparr>),
      (''gindiff:///nowhere#foo.txt'',
         \<lparr>scheme = ''gindiff'', expr = ''/nowhere'', params = None, fragment = Some ''foo.txt''\<rparr>),
      (''file:///repo/sub#foo.txt'',
         \<lparr>scheme = ''file'', expr = ''/repo/sub'', params = None, fragment = Some ''foo.txt''\<rparr>)]"

definition sample_parse :: "string \<Rightarrow> error + bufname" where
  "sample_parse name =
     (case map_of sample_names name of None \<Rightarrow> Inl MalformedIdentifier | Some b \<Rightarrow> Inr b)"

definition sample_format :: "bufname \<Rightarrow> error + string" where
  "sample_format b =
     Inr (scheme b @ ''://'' @ expr b
          @ (case param b ''commitish'' of JStr c \<Rightarrow> ''?commitish='' @ c | v \<Rightarrow> [])
          @ (case fragment b of None \<Rightarrow> [] | Some f \<Rightarrow> ''#'' @ f))"

definition sample_find :: "string \<Rightarrow> error + string" where
  "sample_find p =
     (if take 5 p = ''/repo'' then Inr ''/repo'' else Inl (Error ''No git repository found''))"

definition sample_run :: "string list \<Rightarrow> run_options \<Rightarrow> proc_result" where
  "sample_run args options =
     (if run_cwd options = ''/repo''
      then \<lparr>status_success = True, proc_output = join [CHR 0x0A] minimal_diff,
            proc_stderrOutput = []\<rparr>
      else \<lparr>status_success = False, proc_output = [],
            proc_stderrOutput = ''fatal: not a git repository''\<rparr>)"

definition sample_deps :: deps where
  "sample_deps =
     \<lparr>normCmdArgs = (\<lambda>args. Inr args),
      args_parse = (\<lambda>args. Inr ([], [], args)),
      validateOpts = (\<lambda>os known. None),
      validateFlags = (\<lambda>flags known. None),
      builtinOpts = [],
      formatOpts = (\<lambda>os known. []),
      formatFlags = (\<lambda>flags. []),
      path_relative = (\<lambda>from to. remove_prefix (from @ ''/'') to),
      bufname_format = sample_format,
      bufname_parse = sample_parse,
      GIN_BUFFER_PROTOCOLS = [''gindiff'', ''ginedit''],
      fnamemodify = (\<lambda>p mods. Inr (JStr p)),
      fs_exists = (\<lambda>p. p = ''/repo/sub''),
      finder_find = sample_find,
      cmd_expand = (\<lambda>p. Inr p),
      decodeUtf8 = (\<lambda>data. data),
      run = sample_run,
      findJumpOld = (\<lambda>index content. Inr (find_jump Old index content)),
      findJumpNew = (\<lambda>index content. Inr (find_jump New index content)),
      parseCommitish = resolve,
      editCommand = (\<lambda>args. None)\<rparr>"

definition sample_editor :: editor where
  "sample_editor =
     \<lparr>getcwd = ''/repo'', cur_bufname = ''gindiff:///repo#foo.txt'', cur_dirname = [],
      cur_bufnr = 3, v_cmdarg = [], cur_line = 5, cur_content = minimal_diff,
      gin_diff_disable_default_mappings = VBool False, environ = [], verbose = 0\<rparr>"



definition nowhere_editor :: editor where
  "nowhere_editor = sample_editor\<lparr>cur_bufname := ''gindiff:///nowhere#foo.txt''\<rparr>"

definition file_editor :: editor where
  "file_editor =
     sample_editor\<lparr>cur_bufname := ''file:///repo/sub#foo.txt'', cur_dirname := ''/repo/sub''\<rparr>"

definition unnamed_editor :: editor where
  "unnamed_editor = sample_editor\<lparr>cur_bufname := ''notes.txt'', cur_dirname := ''/tmp''\<rparr>"

definition cached_editor :: editor where
  "cached_editor =
     sample_editor\<lparr>cur_bufname := ''gindiff:///repo?cached#foo.txt'', cur_line := 4\<rparr>"


definition range_editor :: editor where
  "range_editor =
     sample_editor\<lparr>cur_bufname := ''gindiff:///repo?commitish=v1..v2#foo.txt'', cur_line := 4\<rparr>"

definition header_editor :: editor where
  "header_editor = sample_editor\<lparr>cur_line := 3\<rparr>"

section \<open>Properties\<close>

subsection \<open>The positional arguments of the command\<close>

lemma parseResidue_other:
  "length r \<noteq> 1 \<Longrightarrow> length r \<noteq> 2 \<Longrightarrow>
   parseResidue r = Inl (Error ''Invalid number of arguments'')"
  by (cases r rule: parseResidue.cases) simp_all

text \<open>
  C9: the command takes one or two positional arguments. With one, the argument is the
  path and the revision expression is absent: the command goes on to the worktree, formats
  the buffer name of the record whose \<^verbatim>\<open>commitish\<close> is \<^verbatim>\<open>undefined\<close> and whose fragment
  is the path relative to the worktree, and opens that buffer. With two, the first is the
  revision expression and the second the path, and the same happens with \<^verbatim>\<open>commitish\<close>
  set. With any other number \<^verbatim>\<open>parseResidue\<close> throws, and the command ends with an
  error and an empty trace: no worktree has been looked up, no buffer name formatted and
  no buffer opened. When the two validations pass, the error is the one of
  \<^verbatim>\<open>parseResidue\<close>.
\<close>

theorem open_positional_arguments:
  "parseResidue [p] = Inr (None, p)
   \<and> parseResidue [c, p] = Inr (Some c, p)
   \<and> (length residue \<noteq> 1 \<and> length residue \<noteq> 2 \<longrightarrow>
        parseResidue residue = Inl (Error ''Invalid number of arguments''))
   \<and> (normCmdArgs D args = Inr normalized
        \<and> args_parse D normalized = Inr (os, flags, residue)
        \<and> length residue \<noteq> 1 \<and> length residue \<noteq> 2 \<longrightarrow>
        (\<exists>e. command D ed args = (Inl e, []))
        \<and> (validateOpts D os (''worktree'' # builtinOpts D) = None
             \<and> validateFlags D flags diff_flags = None \<longrightarrow>
             command D ed args = (Inl (Error ''Invalid number of arguments''), [])))
   \<and> (normCmdArgs D args = Inr normalized
        \<and> args_parse D normalized = Inr (os, flags, [p])
        \<and> validateOpts D os (''worktree'' # builtinOpts D) = None
        \<and> validateFlags D flags diff_flags = None \<longrightarrow>
        command D ed args =
          (case getWorktreeFromOpts D ed os of
             Inl e \<Rightarrow> (Inl e, [])
           | Inr worktree \<Rightarrow>
               (case bufname_format D (diff_bufname D worktree flags None p) of
                  Inl e \<Rightarrow> (Inl e, [])
                | Inr bname \<Rightarrow>
                    (Inr (), [BufferOpen bname (join '' '' (formatOpts D os (builtinOpts D)))]))))
   \<and> (normCmdArgs D args = Inr normalized
        \<and> args_parse D normalized = Inr (os, flags, [c, p])
        \<and> validateOpts D os (''worktree'' # builtinOpts D) = None
        \<and> validateFlags D flags diff_flags = None \<longrightarrow>
        command D ed args =
          (case getWorktreeFromOpts D ed os of
             Inl e \<Rightarrow> (Inl e, [])
           | Inr worktree \<Rightarrow>
               (case bufname_format D (diff_bufname D worktree flags (Some c) p) of
                  Inl e \<Rightarrow> (Inl e, [])
                | Inr bname \<Rightarrow>
                    (Inr (), [BufferOpen bname (join '' '' (formatOpts D os (builtinOpts D)))]))))"
proof (intro conjI impI)
  show "parseResidue [p] = Inr (None, p)" and "parseResidue [c, p] = Inr (Some c, p)"
    by simp_all
next
  assume "length residue \<noteq> 1 \<and> length residue \<noteq> 2"
  then show "parseResidue residue = Inl (Error ''Invalid number of arguments'')"
    by (simp add: parseResidue_other)
next
  assume "normCmdArgs D args = Inr normalized
        \<and> args_parse D normalized = Inr (os, flags, residue)
        \<and> length residue \<noteq> 1 \<and> length residue \<noteq> 2"
  then show "\<exists>e. command D ed args = (Inl e, [])"
    by (auto simp: command_def parseResidue_other split: option.splits)
next
  assume "normCmdArgs D args = Inr normalized
        \<and> args_parse D normalized = Inr (os, flags, residue)
        \<and> length residue \<noteq> 1 \<and> length residue \<noteq> 2"
    and "validateOpts D os (''worktree'' # builtinOpts D) = None
        \<and> validateFlags D flags diff_flags = None"
  then show "command D ed args = (Inl (Error ''Invalid number of arguments''), [])"
    by (simp add: command_def parseResidue_other)
next
  assume "normCmdArgs D args = Inr normalized
        \<and> args_parse D normalized = Inr (os, flags, [p])
        \<and> validateOpts D os (''worktree'' # builtinOpts D) = None
        \<and> validateFlags D flags diff_flags = None"
  then show "command D ed args =
          (case getWorktreeFromOpts D ed os of
             Inl e \<Rightarrow> (Inl e, [])
           | Inr worktree \<Rightarrow>
               (case bufname_format D (diff_bufname D worktree flags None p) of
                  Inl e \<Rightarrow> (Inl e, [])
                | Inr bname \<Rightarrow>
                    (Inr (), [BufferOpen bname (join '' '' (formatOpts D os (builtinOpts D)))])))"
    by (simp add: command_def diff_bufname_def Let_def split: sum.splits)
next
  assume "normCmdArgs D args = Inr normalized
        \<and> args_parse D normalized = Inr (os, flags, [c, p])
        \<and> validateOpts D os (''worktree'' # builtinOpts D) = None
        \<and> validateFlags D flags diff_flags = None"
  then show "command D ed args =
          (case getWorktreeFromOpts D ed os of
             Inl e \<Rightarrow> (Inl e, [])
           | Inr worktree \<Rightarrow>
               (case bufname_format D (diff_bufname D worktree flags (Some c) p) of
                  Inl e \<Rightarrow> (Inl e, [])
                | Inr bname \<Rightarrow>
                    (Inr (), [BufferOpen bname (join '' '' (formatOpts D os (builtinOpts D)))])))"
    by (simp add: command_def diff_bufname_def Let_def split: sum.splits)
qed

theorem open_positional_arguments_witness:
  "normCmdArgs sample_deps [] = Inr []
   \<and> args_parse sample_deps [] = Inr ([], [], [])
   \<and> command sample_deps sample_editor [] = (Inl (Error ''Invalid number of arguments''), [])
   \<and> normCmdArgs sample_deps [''a'', ''b'', ''c''] = Inr [''a'', ''b'', ''c'']
   \<and> args_parse sample_deps [''a'', ''b'', ''c''] = Inr ([], [], [''a'', ''b'', ''c''])
   \<and> command sample_deps sample_editor [''a'', ''b'', ''c'']
       = (Inl (Error ''Invalid number of arguments''), [])
   \<and> args_parse sample_deps [''/repo/foo.txt''] = Inr ([], [], [''/repo/foo.txt''])
   \<and> validateOpts sample_deps [] (''worktree'' # builtinOpts sample_deps) = None
   \<and> validateFlags sample_deps [] diff_flags = None
   \<and> getWorktreeFromOpts sample_deps sample_editor [] = Inr ''/repo''
   \<and> diff_bufname sample_deps ''/repo'' [] None ''/repo/foo.txt''
       = \<lparr>scheme = ''gindiff'', expr = ''/repo'',
          params = Some [(''commitish'', JUndefined)], fragment = Some ''foo.txt''\<rparr>
   \<and> command sample_deps sample_editor [''/repo/foo.txt'']
       = (Inr (), [BufferOpen ''gindiff:///repo#foo.txt'' []])
   \<and> args_parse sample_deps [''HEAD'', ''/repo/foo.txt'']
       = Inr ([], [], [''HEAD'', ''/repo/foo.txt''])
   \<and> diff_bufname sample_deps ''/repo'' [] (Some ''HEAD'') ''/repo/foo.txt''
       = \<lparr>scheme = ''gindiff'', expr = ''/repo'',
          params = Some [(''commitish'', JStr ''HEAD'')], fragment = Some ''foo.txt''\<rparr>
   \<and> command sample_deps sample_editor [''HEAD'', ''/repo/foo.txt'']
       = (Inr (), [BufferOpen ''gindiff:///repo?commitish=HEAD#foo.txt'' []])"
proof -
  have w: "getWorktreeFromOpts sample_deps sample_editor [] = Inr ''/repo''"
    by (simp add: getWorktreeFromOpts_def getWorktree_def worktree_of_bufname_def
        sample_deps_def sample_editor_def sample_parse_def sample_names_def)
  have b1: "diff_bufname sample_deps ''/repo'' [] None ''/repo/foo.txt''
       = \<lparr>scheme = ''gindiff'', expr = ''/repo'',
          params = Some [(''commitish'', JUndefined)], fragment = Some ''foo.txt''\<rparr>"
    and b2: "diff_bufname sample_deps ''/repo'' [] (Some ''HEAD'') ''/repo/foo.txt''
       = \<lparr>scheme = ''gindiff'', expr = ''/repo'',
          params = Some [(''commitish'', JStr ''HEAD'')], fragment = Some ''foo.txt''\<rparr>"
    by (simp_all add: diff_bufname_def sample_deps_def remove_prefix_def)
  have f1: "bufname_format sample_deps
              \<lparr>scheme = ''gindiff'', expr = ''/repo'',
               params = Some [(''commitish'', JUndefined)], fragment = Some ''foo.txt''\<rparr>
            = Inr ''gindiff:///repo#foo.txt''"
    and f2: "bufname_format sample_deps
              \<lparr>scheme = ''gindiff'', expr = ''/repo'',
               params = Some [(''commitish'', JStr ''HEAD'')], fragment = Some ''foo.txt''\<rparr>
            = Inr ''gindiff:///repo?commitish=HEAD#foo.txt''"
    by (simp_all add: sample_deps_def sample_format_def param_def params_or_empty_def)
  have o: "formatOpts sample_deps [] (builtinOpts sample_deps) = []"
    and n: "\<And>a. normCmdArgs sample_deps a = Inr a"
    and a: "\<And>a. args_parse sample_deps a = Inr ([], [], a)"
    and v1: "validateOpts sample_deps [] (''worktree'' # builtinOpts sample_deps) = None"
    and v2: "validateFlags sample_deps [] diff_flags = None"
    by (simp_all add: sample_deps_def)
  show ?thesis
    using open_positional_arguments [where D = sample_deps and args = "[]" and normalized = "[]"
        and os = "[]" and flags = "[]" and residue = "[]" and ed = sample_editor]
      open_positional_arguments [where D = sample_deps and args = "[''a'', ''b'', ''c'']"
        and normalized = "[''a'', ''b'', ''c'']" and os = "[]" and flags = "[]"
        and residue = "[''a'', ''b'', ''c'']" and ed = sample_editor]
      open_positional_arguments [where D = sample_deps and args = "[''/repo/foo.txt'']"
        and normalized = "[''/repo/foo.txt'']" and os = "[]" and flags = "[]"
        and p = "''/repo/foo.txt''" and ed = sample_editor]
      open_positional_arguments [where D = sample_deps and args = "[''HEAD'', ''/repo/foo.txt'']"
        and normalized = "[''HEAD'', ''/repo/foo.txt'']" and os = "[]" and flags = "[]"
        and c = "''HEAD''" and p = "''/repo/foo.txt''" and ed = sample_editor]
      w b1 b2 f1 f2 o n a v1 v2
    by simp
qed

subsection \<open>Worktree discovery\<close>

text \<open>
  C10: when the current buffer has no name, when \<^verbatim>\<open>bufname.parse\<close> throws on its name,
  or when the parsed scheme is not one of \<^verbatim>\<open>GIN_BUFFER_PROTOCOLS\<close>, \<^verbatim>\<open>getWorktree\<close>
  is the result of \<^verbatim>\<open>find\<close> on the buffer's directory when that is non-empty and
  exists, and on the current working directory otherwise. The parser's error is not part
  of the result.
\<close>

theorem getWorktree_fallback:
  assumes "cur_bufname ed = []
           \<or> (\<exists>e. bufname_parse D (cur_bufname ed) = Inl e)
           \<or> (\<exists>b. bufname_parse D (cur_bufname ed) = Inr b
                  \<and> scheme b \<notin> set (GIN_BUFFER_PROTOCOLS D))"
  shows "getWorktree D ed =
           (if cur_dirname ed \<noteq> [] \<and> fs_exists D (cur_dirname ed)
            then finder_find D (cur_dirname ed)
            else finder_find D (getcwd ed))"
  using assms by (auto simp: getWorktree_def worktree_of_bufname_def)

theorem getWorktree_fallback_witness:
  "bufname_parse sample_deps (cur_bufname unnamed_editor) = Inl MalformedIdentifier
   \<and> \<not> fs_exists sample_deps (cur_dirname unnamed_editor)
   \<and> getWorktree sample_deps unnamed_editor = Inr ''/repo''
   \<and> bufname_parse sample_deps (cur_bufname file_editor)
       = Inr \<lparr>scheme = ''file'', expr = ''/repo/sub'', params = None, fragment = Some ''foo.txt''\<rparr>
   \<and> ''file'' \<notin> set (GIN_BUFFER_PROTOCOLS sample_deps)
   \<and> fs_exists sample_deps (cur_dirname file_editor)
   \<and> getWorktree sample_deps file_editor = Inr ''/repo''"
proof -
  have p1: "bufname_parse sample_deps (cur_bufname unnamed_editor) = Inl MalformedIdentifier"
    by (simp add: sample_deps_def unnamed_editor_def sample_editor_def sample_parse_def
        sample_names_def)
  have p2: "bufname_parse sample_deps (cur_bufname file_editor)
       = Inr \<lparr>scheme = ''file'', expr = ''/repo/sub'', params = None, fragment = Some ''foo.txt''\<rparr>"
    by (simp add: sample_deps_def file_editor_def sample_editor_def sample_parse_def
        sample_names_def)
  have s2: "''file'' \<notin> set (GIN_BUFFER_PROTOCOLS sample_deps)"
    by (simp add: sample_deps_def)
  show ?thesis
    using getWorktree_fallback [of unnamed_editor sample_deps]
      getWorktree_fallback [of file_editor sample_deps] p1 p2 s2
    by (simp add: sample_deps_def unnamed_editor_def file_editor_def sample_editor_def
        sample_find_def)
qed

subsection \<open>Rendering\<close>





text \<open>
  C6: when the diff process ends without success, \<^verbatim>\<open>read\<close> returns normally and its
  trace is the process, then \<^verbatim>\<open>echohl Error\<close>, the decoded error output echoed, and
  \<^verbatim>\<open>echohl None\<close>. Nothing else is called: no option is set, no mapping made, no
  content written, and \<^verbatim>\<open>buffer.ensure\<close> and \<^verbatim>\<open>buffer.concrete\<close> are not reached, so
  no call of the trace changes a buffer.
\<close>

theorem read_process_failure:
  assumes "gin_diff_disable_default_mappings ed = VBool m"
    and "bufname_parse D (cur_bufname ed) = Inr b"
    and "fragment b = Some frag" and "frag \<noteq> []"
    and "read_args D b frag = Inr args"
    and "\<not> status_success (run D args (read_options ed b))"
  shows "read D ed =
           (Inr (),
            [Run args (read_options ed b), ProcClose,
             Cmd ''echohl Error'',
             Echo (decodeUtf8 D (proc_stderrOutput (run D args (read_options ed b)))),
             Cmd ''echohl None''])
         \<and> \<not> list_ex changes_buffer (snd (read D ed))"
  using assms by (simp add: read_def Let_def)

theorem read_process_failure_witness:
  "gin_diff_disable_default_mappings nowhere_editor = VBool False
   \<and> bufname_parse sample_deps (cur_bufname nowhere_editor)
     = Inr \<lparr>scheme = ''gindiff'', expr = ''/nowhere'', params = None, fragment = Some ''foo.txt''\<rparr>
   \<and> \<not> status_success (run sample_deps [''diff'', ''--no-color'', ''foo.txt'']
         (read_options nowhere_editor
            \<lparr>scheme = ''gindiff'', expr = ''/nowhere'', params = None,
             fragment = Some ''foo.txt''\<rparr>))
   \<and> read sample_deps nowhere_editor
     = (Inr (),
        [Run [''diff'', ''--no-color'', ''foo.txt'']
           \<lparr>printCommand = False, run_stdin = ''null'', run_stdout = ''piped'',
            run_stderr = ''piped'', noOptionalLocks = True, run_cwd = ''/nowhere'',
            run_env = []\<rparr>,
         ProcClose,
         Cmd ''echohl Error'', Echo ''fatal: not a git repository'', Cmd ''echohl None''])
   \<and> \<not> list_ex changes_buffer (snd (read sample_deps nowhere_editor))"
proof -
  let ?b = "\<lparr>scheme = ''gindiff'', expr = ''/nowhere'', params = None,
             fragment = Some ''foo.txt''\<rparr>"
  have p: "bufname_parse sample_deps (cur_bufname nowhere_editor) = Inr ?b"
    by (simp add: sample_deps_def nowhere_editor_def sample_editor_def sample_parse_def
        sample_names_def)
  have g: "gin_diff_disable_default_mappings nowhere_editor = VBool False"
    by (simp add: nowhere_editor_def sample_editor_def)
  have f: "fragment ?b = Some ''foo.txt''" and n: "''foo.txt'' \<noteq> []"
    by simp_all
  have a: "read_args sample_deps ?b ''foo.txt'' = Inr [''diff'', ''--no-color'', ''foo.txt'']"
    by (simp add: read_args_def param_def params_or_empty_def sample_deps_def)
  have r: "\<not> status_success (run sample_deps [''diff'', ''--no-color'', ''foo.txt'']
             (read_options nowhere_editor ?b))"
    by (simp add: sample_deps_def sample_run_def read_options_def)
  show ?thesis
    using read_process_failure [OF g p f n a r] g p r
    by (simp add: sample_deps_def sample_run_def read_options_def nowhere_editor_def
        sample_editor_def)
qed

subsection \<open>Jumping\<close>

lemma sample_find_jump:
  "find_jump Old 2 minimal_diff = None"
  "find_jump New 2 minimal_diff = None"
  "find_jump Old 4 minimal_diff = None"
  "find_jump New 4 minimal_diff = Some \<lparr>path = ''b/foo.txt'', lnum = 2\<rparr>"
  "find_jump Old 3 minimal_diff = Some \<lparr>path = ''a/foo.txt'', lnum = 1\<rparr>"
  "find_jump New 3 minimal_diff = Some \<lparr>path = ''b/foo.txt'', lnum = 1\<rparr>"
  by code_simp+

text \<open>
  C7: when the locator returns no mapping, the jump calls nothing: the trace is empty, so
  no buffer is opened and no cursor moved. It returns normally whenever the buffer's name
  parsed, which the source does before it asks the locator; the parser's error is the
  only one a jump without a mapping can end with.
\<close>

theorem jump_absent_no_action:
  "(findJumpOld D (cur_line ed - 1) (cur_content ed) = Inr None \<longrightarrow>
      snd (jumpOld D ed) = []
      \<and> (\<forall>b. bufname_parse D (cur_bufname ed) = Inr b \<longrightarrow> jumpOld D ed = (Inr (), [])))
   \<and> (findJumpNew D (cur_line ed - 1) (cur_content ed) = Inr None \<longrightarrow>
      snd (jumpNew D ed) = []
      \<and> (\<forall>b. bufname_parse D (cur_bufname ed) = Inr b \<longrightarrow> jumpNew D ed = (Inr (), [])))"
  by (auto simp: jumpOld_def jumpNew_def split: sum.splits)

theorem jump_absent_no_action_witness:
  "findJumpOld sample_deps (cur_line header_editor - 1) (cur_content header_editor) = Inr None
   \<and> findJumpNew sample_deps (cur_line header_editor - 1) (cur_content header_editor) = Inr None
   \<and> bufname_parse sample_deps (cur_bufname header_editor)
       = Inr \<lparr>scheme = ''gindiff'', expr = ''/repo'', params = None, fragment = Some ''foo.txt''\<rparr>
   \<and> jumpOld sample_deps header_editor = (Inr (), [])
   \<and> jumpNew sample_deps header_editor = (Inr (), [])
   \<and> classify (cur_content sample_editor ! 4) = AdditionLine
   \<and> findJumpOld sample_deps (cur_line sample_editor - 1) (cur_content sample_editor) = Inr None
   \<and> jumpOld sample_deps sample_editor = (Inr (), [])"
proof -
  have o: "findJumpOld sample_deps (cur_line header_editor - 1) (cur_content header_editor) = Inr None"
    and n: "findJumpNew sample_deps (cur_line header_editor - 1) (cur_content header_editor) = Inr None"
    and o': "findJumpOld sample_deps (cur_line sample_editor - 1) (cur_content sample_editor) = Inr None"
    by (simp_all add: sample_deps_def header_editor_def sample_editor_def sample_find_jump)
  have p: "bufname_parse sample_deps (cur_bufname header_editor)
       = Inr \<lparr>scheme = ''gindiff'', expr = ''/repo'', params = None, fragment = Some ''foo.txt''\<rparr>"
    and p': "bufname_parse sample_deps (cur_bufname sample_editor)
       = Inr \<lparr>scheme = ''gindiff'', expr = ''/repo'', params = None, fragment = Some ''foo.txt''\<rparr>"
    by (simp_all add: sample_deps_def header_editor_def sample_editor_def sample_parse_def
        sample_names_def)
  have a: "classify (cur_content sample_editor ! 4) = AdditionLine"
    by (simp add: sample_editor_def minimal_diff_def classify_def after_prefix_def)
  show ?thesis
    using jump_absent_no_action [of sample_deps header_editor]
      jump_absent_no_action [of sample_deps sample_editor] o n o' p p' a
    by simp
qed

text \<open>
  C8: what a jump opens for its chosen target. For a Commit target the request carries the
  stored revision expression, \<^verbatim>\<open>HEAD\<close> when that is empty; for a Worktree target the
  path alone, under the repository root; for an Index target \<^verbatim>\<open>--cached\<close> and the
  path. When the edit command returns, the cursor is set to the line of the locator,
  column 1.
\<close>

theorem jump_open_request:
  assumes "bufname_parse D (cur_bufname ed) = Inr b"
    and "ensureString (commitish_or_empty b) = Inr c"
    and "parseCommitish D c (cached_in b) = Inr (told, tnew)"
  shows "(findJumpOld D (cur_line ed - 1) (cur_content ed) = Inr (Some j) \<longrightarrow>
            jumpOld D ed =
              edit_then_cursor D
                (case told of
                   WORKTREE \<Rightarrow> [''++worktree='' @ expr b, remove_prefix ''a/'' (path j)]
                 | INDEX \<Rightarrow> [''++worktree='' @ expr b, ''--cached'', remove_prefix ''a/'' (path j)]
                 | COMMIT r \<Rightarrow> [''++worktree='' @ expr b, if c = [] then ''HEAD'' else c,
                                remove_prefix ''a/'' (path j)]) j)
       \<and> (findJumpNew D (cur_line ed - 1) (cur_content ed) = Inr (Some j) \<longrightarrow>
            jumpNew D ed =
              edit_then_cursor D
                (case tnew of
                   WORKTREE \<Rightarrow> [''++worktree='' @ expr b, remove_prefix ''b/'' (path j)]
                 | INDEX \<Rightarrow> [''++worktree='' @ expr b, ''--cached'', remove_prefix ''b/'' (path j)]
                 | COMMIT r \<Rightarrow> [''++worktree='' @ expr b, if c = [] then ''HEAD'' else c,
                                remove_prefix ''b/'' (path j)]) j)
       \<and> (editCommand D args = None \<longrightarrow>
            edit_then_cursor D args j = (Inr (), [EditCommand args, Cursor (lnum j) 1]))"
proof (intro conjI impI)
  assume "findJumpOld D (cur_line ed - 1) (cur_content ed) = Inr (Some j)"
  with assms show "jumpOld D ed =
      edit_then_cursor D
        (case told of
           WORKTREE \<Rightarrow> [''++worktree='' @ expr b, remove_prefix ''a/'' (path j)]
         | INDEX \<Rightarrow> [''++worktree='' @ expr b, ''--cached'', remove_prefix ''a/'' (path j)]
         | COMMIT r \<Rightarrow> [''++worktree='' @ expr b, if c = [] then ''HEAD'' else c,
                        remove_prefix ''a/'' (path j)]) j"
    by (cases told) (simp_all add: jumpOld_def Let_def)
next
  assume "findJumpNew D (cur_line ed - 1) (cur_content ed) = Inr (Some j)"
  with assms show "jumpNew D ed =
      edit_then_cursor D
        (case tnew of
           WORKTREE \<Rightarrow> [''++worktree='' @ expr b, remove_prefix ''b/'' (path j)]
         | INDEX \<Rightarrow> [''++worktree='' @ expr b, ''--cached'', remove_prefix ''b/'' (path j)]
         | COMMIT r \<Rightarrow> [''++worktree='' @ expr b, if c = [] then ''HEAD'' else c,
                        remove_prefix ''b/'' (path j)]) j"
    by (cases tnew) (simp_all add: jumpNew_def Let_def)
next
  assume "editCommand D args = None"
  then show "edit_then_cursor D args j = (Inr (), [EditCommand args, Cursor (lnum j) 1])"
    by (simp add: edit_then_cursor_def)
qed

theorem jump_open_request_witness:
  "bufname_parse sample_deps (cur_bufname cached_editor)
     = Inr \<lparr>scheme = ''gindiff'', expr = ''/repo'', params = Some [(''cached'', JStr [])],
            fragment = Some ''foo.txt''\<rparr>
   \<and> parseCommitish sample_deps [] True = Inr (COMMIT ''HEAD'', INDEX)
   \<and> findJumpOld sample_deps (cur_line cached_editor - 1) (cur_content cached_editor)
       = Inr (Some \<lparr>path = ''a/foo.txt'', lnum = 1\<rparr>)
   \<and> editCommand sample_deps [''++worktree=/repo'', ''HEAD'', ''foo.txt''] = None
   \<and> jumpOld sample_deps cached_editor
       = (Inr (), [EditCommand [''++worktree=/repo'', ''HEAD'', ''foo.txt''], Cursor 1 1])
   \<and> bufname_parse sample_deps (cur_bufname range_editor)
     = Inr \<lparr>scheme = ''gindiff'', expr = ''/repo'',
            params = Some [(''commitish'', JStr ''v1..v2'')], fragment = Some ''foo.txt''\<rparr>
   \<and> parseCommitish sample_deps ''v1..v2'' False = Inr (COMMIT ''v1'', COMMIT ''v2'')
   \<and> findJumpNew sample_deps (cur_line range_editor - 1) (cur_content range_editor)
       = Inr (Some \<lparr>path = ''b/foo.txt'', lnum = 1\<rparr>)
   \<and> jumpNew sample_deps range_editor
       = (Inr (), [EditCommand [''++worktree=/repo'', ''v1..v2'', ''foo.txt''], Cursor 1 1])"
proof -
  let ?b = "\<lparr>scheme = ''gindiff'', expr = ''/repo'', params = Some [(''cached'', JStr [])],
            fragment = Some ''foo.txt''\<rparr>"
  let ?r = "\<lparr>scheme = ''gindiff'', expr = ''/repo'',
            params = Some [(''commitish'', JStr ''v1..v2'')], fragment = Some ''foo.txt''\<rparr>"
  have p: "bufname_parse sample_deps (cur_bufname cached_editor) = Inr ?b"
    by (simp add: sample_deps_def cached_editor_def sample_editor_def sample_parse_def
        sample_names_def)
  have e: "ensureString (commitish_or_empty ?b) = Inr []"
    by (simp add: commitish_or_empty_def param_def params_or_empty_def)
  have r: "parseCommitish sample_deps [] (cached_in ?b) = Inr (COMMIT ''HEAD'', INDEX)"
    by (simp add: sample_deps_def resolve_def cached_in_def params_or_empty_def)
  have f: "findJumpOld sample_deps (cur_line cached_editor - 1) (cur_content cached_editor)
             = Inr (Some \<lparr>path = ''a/foo.txt'', lnum = 1\<rparr>)"
    by (simp add: sample_deps_def cached_editor_def sample_editor_def sample_find_jump)
  have c: "editCommand sample_deps [''++worktree=/repo'', ''HEAD'', ''foo.txt''] = None"
    by (simp add: sample_deps_def)
  have p': "bufname_parse sample_deps (cur_bufname range_editor) = Inr ?r"
    by (simp add: sample_deps_def range_editor_def sample_editor_def sample_parse_def
        sample_names_def)
  have e': "ensureString (commitish_or_empty ?r) = Inr ''v1..v2''"
    by (simp add: commitish_or_empty_def param_def params_or_empty_def)
  have r': "parseCommitish sample_deps ''v1..v2'' (cached_in ?r) = Inr (COMMIT ''v1'', COMMIT ''v2'')"
    by (simp add: sample_deps_def resolve_def is_revision_def cached_in_def params_or_empty_def)
  have f': "findJumpNew sample_deps (cur_line range_editor - 1) (cur_content range_editor)
             = Inr (Some \<lparr>path = ''b/foo.txt'', lnum = 1\<rparr>)"
    by (simp add: sample_deps_def range_editor_def sample_editor_def sample_find_jump)
  have c': "editCommand sample_deps [''++worktree=/repo'', ''v1..v2'', ''foo.txt''] = None"
    by (simp add: sample_deps_def)
  show ?thesis
    using jump_open_request [OF p e r, of "\<lparr>path = ''a/foo.txt'', lnum = 1\<rparr>"
        "[''++worktree=/repo'', ''HEAD'', ''foo.txt'']"]
      jump_open_request [OF p' e' r', of "\<lparr>path = ''b/foo.txt'', lnum = 1\<rparr>"
        "[''++worktree=/repo'', ''v1..v2'', ''foo.txt'']"]
      p r f c p' r' f' c'
    by (simp add: remove_prefix_def cached_in_def params_or_empty_def)
qed

text \<open>
  C2: a jump-old opens the request of the first target the resolver returns and a jump-new
  that of the second. With an empty revision expression, no \<^verbatim>\<open>cached\<close> parameter and
  \<open>(Index, Worktree)\<close> as the resolver's answer, a jump-new on a mapped line opens the
  file of the worktree and a jump-old the staged content, each followed by the cursor at
  the mapped line.
\<close>

theorem jump_selects_target:
  assumes "bufname_parse D (cur_bufname ed) = Inr b"
  shows "(ensureString (commitish_or_empty b) = Inr c
            \<and> parseCommitish D c (cached_in b) = Inr (told, tnew) \<longrightarrow>
            (findJumpOld D (cur_line ed - 1) (cur_content ed) = Inr (Some j) \<longrightarrow>
               jumpOld D ed =
                 edit_then_cursor D (open_request (expr b) c (remove_prefix ''a/'' (path j)) told) j)
            \<and> (findJumpNew D (cur_line ed - 1) (cur_content ed) = Inr (Some j) \<longrightarrow>
               jumpNew D ed =
                 edit_then_cursor D (open_request (expr b) c (remove_prefix ''b/'' (path j)) tnew) j))
       \<and> (commitish_or_empty b = JStr [] \<and> \<not> cached_in b
            \<and> parseCommitish D [] False = Inr (INDEX, WORKTREE) \<longrightarrow>
            (findJumpNew D (cur_line ed - 1) (cur_content ed) = Inr (Some j) \<longrightarrow>
               jumpNew D ed =
                 edit_then_cursor D [''++worktree='' @ expr b, remove_prefix ''b/'' (path j)] j)
            \<and> (findJumpOld D (cur_line ed - 1) (cur_content ed) = Inr (Some j) \<longrightarrow>
               jumpOld D ed =
                 edit_then_cursor D
                   [''++worktree='' @ expr b, ''--cached'', remove_prefix ''a/'' (path j)] j))"
  using assms
  by (cases told; cases tnew) (auto simp: jumpOld_def jumpNew_def Let_def)

theorem jump_selects_target_witness:
  "bufname_parse sample_deps (cur_bufname sample_editor)
     = Inr \<lparr>scheme = ''gindiff'', expr = ''/repo'', params = None, fragment = Some ''foo.txt''\<rparr>
   \<and> parseCommitish sample_deps [] False = Inr (INDEX, WORKTREE)
   \<and> classify (cur_content sample_editor ! 4) = AdditionLine
   \<and> findJumpNew sample_deps (cur_line sample_editor - 1) (cur_content sample_editor)
       = Inr (Some \<lparr>path = ''b/foo.txt'', lnum = 2\<rparr>)
   \<and> jumpNew sample_deps sample_editor
       = edit_then_cursor sample_deps [''++worktree=/repo'', ''foo.txt'']
           \<lparr>path = ''b/foo.txt'', lnum = 2\<rparr>
   \<and> jumpNew sample_deps sample_editor
       = (Inr (), [EditCommand [''++worktree=/repo'', ''foo.txt''], Cursor 2 1])"
proof -
  let ?b = "\<lparr>scheme = ''gindiff'', expr = ''/repo'', params = None, fragment = Some ''foo.txt''\<rparr>"
  have p: "bufname_parse sample_deps (cur_bufname sample_editor) = Inr ?b"
    by (simp add: sample_deps_def sample_editor_def sample_parse_def sample_names_def)
  have e: "commitish_or_empty ?b = JStr []" and nc: "\<not> cached_in ?b"
    by (simp_all add: commitish_or_empty_def param_def params_or_empty_def cached_in_def)
  have r: "parseCommitish sample_deps [] False = Inr (INDEX, WORKTREE)"
    by (simp add: sample_deps_def resolve_def)
  have a: "classify (cur_content sample_editor ! 4) = AdditionLine"
    by (simp add: sample_editor_def minimal_diff_def classify_def after_prefix_def)
  have f: "findJumpNew sample_deps (cur_line sample_editor - 1) (cur_content sample_editor)
             = Inr (Some \<lparr>path = ''b/foo.txt'', lnum = 2\<rparr>)"
    by (simp add: sample_deps_def sample_editor_def sample_find_jump)
  have c: "edit_then_cursor sample_deps [''++worktree=/repo'', ''foo.txt'']
             \<lparr>path = ''b/foo.txt'', lnum = 2\<rparr>
           = (Inr (), [EditCommand [''++worktree=/repo'', ''foo.txt''], Cursor 2 1])"
    by (simp add: edit_then_cursor_def sample_deps_def)
  show ?thesis
    using jump_selects_target [OF p, of "[]" INDEX WORKTREE "\<lparr>path = ''b/foo.txt'', lnum = 2\<rparr>"]
      p e nc r a f c
    by (simp add: remove_prefix_def)
qed

subsection \<open>The target resolver\<close>

lemma split_range_append:
  "r1 \<noteq> [] \<Longrightarrow> split_range r1 = None \<Longrightarrow> last r1 \<noteq> CHR ''.'' \<Longrightarrow>
   split_range (r1 @ ''..'' @ r2) = Some (r1, r2)"
  by (induction r1 rule: split_range.induct) (auto split: if_splits)

text \<open>
  C3: the resolver on the empty expression, on one revision and on a range of two. The
  empty expression gives \<open>(Index, Worktree)\<close>, or \<open>(Commit HEAD, Index)\<close> when staged;
  a revision \<open>R\<close> gives \<open>(Commit R, Worktree)\<close>, or \<open>(Commit R, Index)\<close> when staged;
  a range \<^verbatim>\<open>R1..R2\<close> gives \<open>(Commit R1, Commit R2)\<close> whatever the staging flag.
\<close>

theorem resolve_correct:
  "resolve [] False = Inr (INDEX, WORKTREE)
   \<and> resolve [] True = Inr (COMMIT ''HEAD'', INDEX)
   \<and> (is_revision R \<longrightarrow>
        resolve R False = Inr (COMMIT R, WORKTREE) \<and> resolve R True = Inr (COMMIT R, INDEX))
   \<and> (is_revision R1 \<and> is_revision R2 \<longrightarrow>
        resolve (R1 @ ''..'' @ R2) staged = Inr (COMMIT R1, COMMIT R2))"
proof (intro conjI impI)
  show "resolve [] False = Inr (INDEX, WORKTREE)" by (simp add: resolve_def)
  show "resolve [] True = Inr (COMMIT ''HEAD'', INDEX)" by (simp add: resolve_def)
next
  assume "is_revision R"
  then show "resolve R False = Inr (COMMIT R, WORKTREE)"
    and "resolve R True = Inr (COMMIT R, INDEX)"
    by (simp_all add: resolve_def is_revision_def)
next
  assume "is_revision R1 \<and> is_revision R2"
  then have r1: "is_revision R1" and r2: "is_revision R2" by simp_all
  from r1 have "split_range (R1 @ ''..'' @ R2) = Some (R1, R2)"
    by (intro split_range_append) (simp_all add: is_revision_def)
  with r1 r2 show "resolve (R1 @ ''..'' @ R2) staged = Inr (COMMIT R1, COMMIT R2)"
    by (simp add: resolve_def)
qed

theorem resolve_correct_witness:
  "is_revision ''abc123'' \<and> is_revision ''v1'' \<and> is_revision ''v2''
   \<and> resolve ''abc123'' False = Inr (COMMIT ''abc123'', WORKTREE)
   \<and> resolve ''abc123'' True = Inr (COMMIT ''abc123'', INDEX)
   \<and> resolve ''v1..v2'' False = Inr (COMMIT ''v1'', COMMIT ''v2'')
   \<and> resolve ''v1..v2'' True = Inr (COMMIT ''v1'', COMMIT ''v2'')"
proof -
  have a: "is_revision ''abc123''" and b: "is_revision ''v1''" and c: "is_revision ''v2''"
    by (simp_all add: is_revision_def)
  show ?thesis
    using resolve_correct [of "''abc123''" "''v1''" "''v2''" False]
      resolve_correct [of "''abc123''" "''v1''" "''v2''" True] a b c
    by simp
qed

subsection \<open>The diff line locator\<close>

text \<open>
  C4: the locator on the minimal diff. With the cursor on the addition line (index 4) the
  new side is \<^verbatim>\<open>foo.txt\<close>, line 2, and the old side has no mapping; with the cursor on
  the first context line (index 3) the old side is \<^verbatim>\<open>foo.txt\<close>, line 1. The scan
  itself returns the paths of the file header, \<^verbatim>\<open>a/foo.txt\<close> and \<^verbatim>\<open>b/foo.txt\<close>; the
  prefix is removed as \<^verbatim>\<open>jumpOld\<close> and \<^verbatim>\<open>jumpNew\<close> remove it.
\<close>

theorem locate_minimal_diff:
  "locate minimal_diff 4 New = Some \<lparr>path = ''foo.txt'', lnum = 2\<rparr>
   \<and> locate minimal_diff 4 Old = None
   \<and> locate minimal_diff 3 Old = Some \<lparr>path = ''foo.txt'', lnum = 1\<rparr>
   \<and> map classify minimal_diff
       = [OldFile ''a/foo.txt'', NewFile ''b/foo.txt'', Hunk 1 2 1 3,
          ContextLine, AdditionLine, ContextLine]
   \<and> find_jump New 4 minimal_diff = Some \<lparr>path = ''b/foo.txt'', lnum = 2\<rparr>
   \<and> find_jump Old 3 minimal_diff = Some \<lparr>path = ''a/foo.txt'', lnum = 1\<rparr>
   \<and> remove_prefix ''b/'' ''b/foo.txt'' = ''foo.txt''
   \<and> remove_prefix ''a/'' ''a/foo.txt'' = ''foo.txt''"
  by (intro conjI; code_simp)

subsection \<open>The buffer name codec\<close>

lemma hex_value_hex_digit: "n < 16 \<Longrightarrow> hex_value (hex_digit n) = Some n"
  by (auto simp: hex_value_def hex_digit_def Let_def)

lemma of_char_hex_digit:
  "n < 16 \<Longrightarrow> of_char (hex_digit n) = (if n < 10 then 48 + n else 55 + n)"
  by (simp add: hex_digit_def)

lemma delimiter_reserved: "delimiter c \<Longrightarrow> reserved c"
  by (auto simp: delimiter_def reserved_def)

lemma hex_digit_not_delimiter: "n < 16 \<Longrightarrow> \<not> delimiter (hex_digit n)"
proof
  assume n: "n < 16" and d: "delimiter (hex_digit n)"
  from d have "(of_char (hex_digit n) :: nat) \<in> {63, 35, 38, 61}"
    by (auto simp: delimiter_def)
  with n show False
    by (auto simp: of_char_hex_digit split: if_splits)
qed

lemma encode_char_no_delimiter: "x \<in> set (encode_char c) \<Longrightarrow> \<not> delimiter x"
proof (cases "reserved c")
  case True
  assume "x \<in> set (encode_char c)"
  with True have "x = CHR ''%'' \<or> x = hex_digit (of_char c div 16) \<or> x = hex_digit (of_char c mod 16)"
    by (auto simp: encode_char_def)
  moreover have "(of_char c :: nat) div 16 < 16"
    using nat_of_char_less_256 [of c] by (simp add: less_mult_imp_div_less) 
  moreover have "(of_char c :: nat) mod 16 < 16" by simp
  ultimately show ?thesis
    using hex_digit_not_delimiter by (auto simp: delimiter_def)
next
  case False
  assume "x \<in> set (encode_char c)"
  with False show ?thesis
    using delimiter_reserved by (auto simp: encode_char_def)
qed

lemma encode_no_delimiter: "x \<in> set (encode s) \<Longrightarrow> \<not> delimiter x"
  by (auto simp: encode_def dest: encode_char_no_delimiter)

lemma encode_Nil [simp]: "encode [] = []"
  by (simp add: encode_def)

lemma encode_Cons: "encode (c # s) = encode_char c @ encode s"
  by (simp add: encode_def)

lemma encode_eq_Nil: "encode s = [] \<longleftrightarrow> s = []"
  by (cases s) (auto simp: encode_Cons encode_char_def)

lemma decode_encode: "decode (encode s) = Some s"
proof (induction s)
  case Nil
  show ?case by simp
next
  case (Cons c s)
  show ?case
  proof (cases "reserved c")
    case True
    have hi: "(of_char c :: nat) div 16 < 16"
      using nat_of_char_less_256 [of c] by (simp add: less_mult_imp_div_less)
    have "char_of ((of_char c :: nat) div 16 * 16 + of_char c mod 16) = c"
      by simp
    with True hi Cons show ?thesis
      by (simp add: encode_Cons encode_char_def hex_value_hex_digit)
  next
    case False
    then have "c \<noteq> CHR ''%''" by (auto simp: reserved_def)
    with False Cons show ?thesis
      by (simp add: encode_Cons encode_char_def)
  qed
qed

lemma split_first_found: "c \<notin> set xs \<Longrightarrow> split_first c (xs @ c # ys) = (xs, Some ys)"
  by (induction xs) (auto simp: split_first_def)

lemma split_first_none: "c \<notin> set xs \<Longrightarrow> split_first c xs = (xs, None)"
  by (induction xs) (auto simp: split_first_def)

lemma split_all_single: "c \<notin> set x \<Longrightarrow> split_all c x = [x]"
  by (induction x) auto

lemma split_all_append: "c \<notin> set x \<Longrightarrow> split_all c (x @ c # r) = x # split_all c r"
  by (induction x) auto

lemma split_all_join:
  "xs \<noteq> [] \<Longrightarrow> \<forall>x \<in> set xs. c \<notin> set x \<Longrightarrow> split_all c (join [c] xs) = xs"
proof (induction "[c]" xs rule: join.induct)
  case 1
  then show ?case by simp
next
  case (2 x)
  then show ?case by (simp add: split_all_single)
next
  case (3 x y ys)
  then show ?case by (simp add: split_all_append)
qed

lemma serialize_param_no_amp: "CHR ''&'' \<notin> set (serialize_param p)"
  using encode_no_delimiter [of "CHR ''&''"]
  by (cases p rule: serialize_param.cases) (auto simp: delimiter_def)

lemma serialize_param_no_hash: "CHR ''#'' \<notin> set (serialize_param p)"
  using encode_no_delimiter [of "CHR ''#''"]
  by (cases p rule: serialize_param.cases) (auto simp: delimiter_def)

lemma parse_serialize_param: "parse_param (serialize_param p) = Some p"
proof (cases p rule: serialize_param.cases)
  case (1 k)
  have "CHR ''='' \<notin> set (encode k)"
    using encode_no_delimiter [of "CHR ''=''" k] by (auto simp: delimiter_def)
  with 1 show ?thesis
    by (simp add: parse_param_def split_first_none decode_encode)
next
  case (2 k v)
  have "CHR ''='' \<notin> set (encode k)"
    using encode_no_delimiter [of "CHR ''=''" k] by (auto simp: delimiter_def)
  then have "split_first CHR ''='' (encode k @ CHR ''='' # encode v) = (encode k, Some (encode v))"
    by (rule split_first_found)
  with 2 show ?thesis
    by (simp add: parse_param_def decode_encode)
qed

lemma those_parse_params: "those (map (parse_param \<circ> serialize_param) ps) = Some ps"
  by (induction ps) (simp_all add: parse_serialize_param)

lemma join_no_hash:
  "\<forall>x \<in> set xs. c \<notin> set x \<Longrightarrow> c \<notin> set sep \<Longrightarrow> c \<notin> set (join sep xs)"
  by (induction sep xs rule: join.induct) auto

lemma parse_serialize:
  assumes "d_scheme d = diff_scheme" and "d_fragment d \<noteq> []"
  shows "parse (serialize d) = Inr d"
proof -
  let ?q = "if parameters d = [] then []
            else ''?'' @ join ''&'' (map serialize_param (parameters d))"
  let ?front = "encode (root d) @ ?q"
  have q_hash: "CHR ''#'' \<notin> set ?q"
    using join_no_hash [of "map serialize_param (parameters d)" "CHR ''#''" "''&''"]
    by (auto simp: serialize_param_no_hash)
  have r_hash: "CHR ''#'' \<notin> set (encode (root d))"
    and r_qm: "CHR ''?'' \<notin> set (encode (root d))"
    using encode_no_delimiter [of _ "root d"] by (auto simp: delimiter_def)
  have body: "after_prefix (diff_scheme @ ''://'') (serialize d)
                = Some (?front @ CHR ''#'' # encode (d_fragment d))"
    using assms(1) by (simp add: serialize_def after_prefix_def)
  have hash: "split_first CHR ''#'' (?front @ CHR ''#'' # encode (d_fragment d))
                = (?front, Some (encode (d_fragment d)))"
    using q_hash r_hash by (intro split_first_found) auto
  have frag: "encode (d_fragment d) \<noteq> []"
    using assms(2) by (simp add: encode_eq_Nil)
  show ?thesis
  proof (cases "parameters d = []")
    case True
    then have "split_first CHR ''?'' ?front = (encode (root d), None)"
      using r_qm by (simp add: split_first_none)
    with True body hash frag assms(1) show ?thesis
      by (simp add: parse_def decode_encode)
  next
    case False
    then have "split_first CHR ''?'' ?front
                 = (encode (root d), Some (join ''&'' (map serialize_param (parameters d))))"
      using r_qm split_first_found [of "CHR ''?''" "encode (root d)"] by simp
    moreover have "split_all CHR ''&'' (join ''&'' (map serialize_param (parameters d)))
                     = map serialize_param (parameters d)"
      using False by (intro split_all_join) (auto simp: serialize_param_no_amp)
    ultimately show ?thesis
      using body hash frag assms(1)
      by (simp add: parse_def decode_encode those_parse_params)
  qed
qed

text \<open>
  C1: parsing the identifier of a legal descriptor gives the descriptor back, and two legal
  descriptors with the same identifier are equal.
\<close>

theorem codec_round_trip:
  "(valid d \<longrightarrow> parse (serialize d) = Inr d)
   \<and> (valid d1 \<and> valid d2 \<and> serialize d1 = serialize d2 \<longrightarrow> d1 = d2)"
proof (intro conjI impI)
  assume "valid d"
  then show "parse (serialize d) = Inr d"
    by (simp add: valid_def parse_serialize)
next
  assume a: "valid d1 \<and> valid d2 \<and> serialize d1 = serialize d2"
  then have v1: "valid d1" and v2: "valid d2" and eq: "serialize d1 = serialize d2"
    by simp_all
  have p1: "parse (serialize d1) = Inr d1"
    using v1 by (simp add: valid_def parse_serialize)
  have p2: "parse (serialize d2) = Inr d2"
    using v2 by (simp add: valid_def parse_serialize)
  have "Inr d1 = parse (serialize d1)"
    by (rule p1 [symmetric])
  also have "\<dots> = parse (serialize d2)"
    by (rule arg_cong [OF eq])
  also have "\<dots> = Inr d2"
    by (rule p2)
  finally show "d1 = d2"
    by (rule Inr_inject)
qed

theorem codec_round_trip_witness:
  "valid sample_descriptor
   \<and> serialize sample_descriptor
       = ''gindiff:///home/me/my repo%231?cached&commitish=v1..v2&I=a%3Db%26c#src/100%25.txt''
   \<and> parse (serialize sample_descriptor) = Inr sample_descriptor"
proof -
  have v: "valid sample_descriptor"
    by (simp add: valid_def sample_descriptor_def diff_scheme_def)
  have s: "serialize sample_descriptor
       = ''gindiff:///home/me/my repo%231?cached&commitish=v1..v2&I=a%3Db%26c#src/100%25.txt''"
    by code_simp
  show ?thesis
    using codec_round_trip [of sample_descriptor] v s by simp
qed

end
